theory Spec2Isabelle
  imports Main "HOL-Library.Sublist"
begin

section \<open>Sync status classification (\<open>map_status\<close>)\<close>

text \<open>
  The module-level constants of \<open>kolibri/core/device/api.py\<close>, lines 200-203. Each is
  the Python string of its own name.
\<close>

definition RECENTLY_SYNCED :: string where
  "RECENTLY_SYNCED = ''RECENTLY_SYNCED''"

definition SYNCING :: string where
  "SYNCING = ''SYNCING''"

definition QUEUED :: string where
  "QUEUED = ''QUEUED''"

definition NOT_RECENTLY_SYNCED :: string where
  "NOT_RECENTLY_SYNCED = ''NOT_RECENTLY_SYNCED''"

text \<open>
  A \<open>datetime\<close> is a point of the time line and a \<open>timedelta\<close> a signed duration, both
  counted in microseconds (the resolution of Python's \<open>datetime\<close>), as unbounded
  integers. Subtracting two datetimes gives a timedelta, which may be negative.
\<close>

type_synonym datetime = int
type_synonym timedelta = int

definition timedelta_minutes :: "int \<Rightarrow> timedelta" where
  "timedelta_minutes m = m * 60 * 1000000"

text \<open>
  The dictionary \<open>map_status\<close> receives is one row of the values queryset of
  \<open>UserSyncStatusViewSet\<close>: its keys are fixed by \<open>values\<close> (\<open>queued\<close>, \<open>last_synced\<close>,
  \<open>active\<close>, \<open>user\<close>), so it is a record here. \<open>last_synced\<close> is the \<open>Max\<close> aggregate of the
  sync session's activity timestamp: \<open>None\<close> when there is none. The \<open>user\<close> key, which
  \<open>map_status\<close> never reads, is the record's extension.
\<close>

record sync_status =
  active :: bool
  queued :: bool
  last_synced :: "datetime option"

text \<open>
  \<open>map_status\<close>, lines 206-221. \<open>timezone.now()\<close> is the first argument. A Python
  function that falls off its end returns \<open>None\<close>: that is the result \<open>None\<close> here, and a
  returned constant is \<open>Some\<close> of it. A datetime is always truthy, so the test
  \<open>elif status["last_synced"]\<close> fails exactly on \<open>None\<close>.
\<close>

definition map_status :: "datetime \<Rightarrow> 'a sync_status_scheme \<Rightarrow> string option" where
  "map_status now status =
     (if active status then Some SYNCING
      else if queued status then Some QUEUED
      else (case last_synced status of
              Some t \<Rightarrow>
                (if now - t < timedelta_minutes 15 then Some RECENTLY_SYNCED
                 else Some NOT_RECENTLY_SYNCED)
            | None \<Rightarrow> None))"

section \<open>Values, requests, responses and exceptions\<close>

text \<open>
  The Python values that travel through the views: JSON scalars, datetimes and lists.
  A dictionary with string keys (request data, a response body, serializer errors) is a
  map from strings to values.
\<close>

datatype pyval =
  PNone
| PBool bool
| PInt int
| PStr string
| PDatetime datetime
| PList "pyval list"

type_synonym pydict = "string \<rightharpoonup> pyval"

text \<open>
  The exceptions a view can leave unhandled: \<open>DoesNotExist\<close> of a manager's \<open>get()\<close>,
  \<open>KeyError\<close> of a subscript or a \<open>del\<close> on a missing key, the \<open>ValidationError\<close> of
  \<open>is_valid(raise_exception=True)\<close> (which carries the serializer's errors and which the
  framework answers with status 400) and of a model's \<open>save()\<close>, and a plain \<open>Exception\<close>
  with its message.
\<close>

datatype exn =
  DoesNotExist
| KeyError string
| ValidationError pydict
| Exception string

text \<open>
  The two response classes the module builds. \<open>Response(data, status=...)\<close> keeps its
  optional \<open>status\<close> argument as given (\<open>None\<close> when left out, which the framework reads
  as 200); \<open>HttpResponseBadRequest(content)\<close> has status 400 by its class.
\<close>

datatype response =
  Response pydict "nat option"
| HttpResponseBadRequest pydict

definition HTTP_200_OK :: nat where
  "HTTP_200_OK = 200"

definition HTTP_201_CREATED :: nat where
  "HTTP_201_CREATED = 201"

definition HTTP_400_BAD_REQUEST :: nat where
  "HTTP_400_BAD_REQUEST = 400"

fun status_code :: "response \<Rightarrow> nat" where
  "status_code (Response body None) = HTTP_200_OK"
| "status_code (Response body (Some s)) = s"
| "status_code (HttpResponseBadRequest content) = HTTP_400_BAD_REQUEST"

fun response_body :: "response \<Rightarrow> pydict" where
  "response_body (Response body s) = body"
| "response_body (HttpResponseBadRequest content) = content"

text \<open>
  What the views read of a request: the query string as the list of its key/value pairs
  in order, the parsed body \<open>request.data\<close>, \<open>request.user.is_superuser\<close> and
  \<open>request.build_absolute_uri\<close>.
\<close>

record request =
  query_params :: "(string \<times> string) list"
  data :: pydict
  user_is_superuser :: bool
  build_absolute_uri :: "string \<Rightarrow> string"

text \<open>
  \<open>request.query_params.get(key)\<close>: the last value given for the key, \<open>None\<close> when the key
  is absent.
\<close>

definition query_params_get :: "(string \<times> string) list \<Rightarrow> string \<Rightarrow> string option" where
  "query_params_get qs key = map_of (rev qs) key"

section \<open>The data store\<close>

text \<open>
  The models the views touch. Of \<open>DeviceSettings\<close> the module names the field \<open>name\<close>; of
  \<open>DynamicNetworkLocation\<close> the field \<open>subset_of_users_device\<close>. Every other field of a
  model is in the extension of its record, and the tables the module does not touch are
  in the extension of the \<open>database\<close> record. \<open>DeviceSettings\<close> is a singleton table: it
  holds no row (a device that is not provisioned) or one.
\<close>

record DeviceSettings =
  name :: pyval

record DynamicNetworkLocation =
  subset_of_users_device :: bool

record ('s, 'n, 'u) database =
  DeviceSettings_table :: "'s DeviceSettings_scheme option"
  DynamicNetworkLocation_table :: "'n DynamicNetworkLocation_scheme list"
  UserSyncStatus_table :: "'u list"

text \<open>
  Modelled from the spec: \<open>DeviceSettings.objects.get()\<close>, whose manager is in
  \<open>models.py\<close>, outside this module. It is a single read of the stored record; the
  manager's \<open>get()\<close> raises \<open>DoesNotExist\<close> when the table has no row.
\<close>

definition DeviceSettings_objects_get ::
  "('s, 'n, 'u, 'z) database_scheme \<Rightarrow> exn + 's DeviceSettings_scheme" where
  "DeviceSettings_objects_get db =
     (case DeviceSettings_table db of
        None \<Rightarrow> Inl DoesNotExist
      | Some settings \<Rightarrow> Inr settings)"

text \<open>
  Modelled from the spec: \<open>DeviceSettings.save()\<close>, defined in \<open>models.py\<close>, outside this
  module. The spec describes the entities as records "mutated via direct field
  assignment and a save operation". A save validates the instance before it writes: the
  validation of the \<open>name\<close> field, whose rules are in \<open>models.py\<close>, is the parameter
  \<open>clean_name\<close>, which rejects a value with a \<open>ValidationError\<close> or gives the value as the
  field keeps it (a number becomes its string). A rejected instance is not written and
  the error is raised; an accepted one carries the cleaned name from then on and is
  written, with all its fields, as the stored record.
\<close>

definition DeviceSettings_save ::
  "(pyval \<Rightarrow> exn + pyval) \<Rightarrow> 's DeviceSettings_scheme \<Rightarrow> ('s, 'n, 'u, 'z) database_scheme
     \<Rightarrow> exn + 's DeviceSettings_scheme \<times> ('s, 'n, 'u, 'z) database_scheme" where
  "DeviceSettings_save clean_name settings db =
     (case clean_name (name settings) of
        Inl e \<Rightarrow> Inl e
      | Inr cleaned \<Rightarrow>
          (let settings = settings\<lparr>name := cleaned\<rparr>
           in Inr (settings, db\<lparr>DeviceSettings_table := Some settings\<rparr>)))"

text \<open>
  A lazy queryset over \<open>UserSyncStatus\<close>: \<open>objects.none()\<close> and \<open>objects.all()\<close> are
  different querysets, also over an empty table; \<open>queryset_rows\<close> is what each evaluates
  to.
\<close>

datatype queryset =
  UserSyncStatus_objects_none
| UserSyncStatus_objects_all

fun queryset_rows :: "('s, 'n, 'u, 'z) database_scheme \<Rightarrow> queryset \<Rightarrow> 'u list" where
  "queryset_rows db UserSyncStatus_objects_none = []"
| "queryset_rows db UserSyncStatus_objects_all = UserSyncStatus_table db"

section \<open>Serializers\<close>

text \<open>
  \<open>DeviceProvisionSerializer\<close> and \<open>DeviceSettingsSerializer\<close> are defined in
  \<open>serializers.py\<close>, outside this module, so a serializer class is a parameter of the
  views that use it, given by the three operations the views call:
  \<^item> \<open>run_validation\<close>: what \<open>is_valid()\<close> computes from the instance the serializer was
    built with (\<open>None\<close> when built from data alone), the data and the store: \<open>Inl\<close> of
    \<open>serializer.errors\<close> when the data is invalid, \<open>Inr\<close> of the validated data otherwise.
    Validation reads the store and does not write it;
  \<^item> \<open>perform_save\<close>: \<open>serializer.save()\<close>, which updates the instance when there is one
    and creates otherwise; it returns the saved object and the store after the save;
  \<^item> \<open>to_representation\<close>: the \<open>.data\<close> of a serializer over an object.
\<close>

record ('i, 'o, 'db) serializer =
  run_validation :: "'i option \<Rightarrow> pydict \<Rightarrow> 'db \<Rightarrow> pydict + pydict"
  perform_save :: "'i option \<Rightarrow> pydict \<Rightarrow> 'db \<Rightarrow> 'o \<times> 'db"
  to_representation :: "'o \<Rightarrow> pydict"

section \<open>The server environment\<close>

text \<open>
  What the views read from outside the store: \<open>kolibri.__version__\<close>, the result of
  \<open>get_urls()\<close> (a status and a list of URLs), the entries of \<open>OPTIONS\<close> and of Django's
  \<open>settings\<close> the module names, the current \<open>InstanceIDModel\<close> (its \<open>id\<close> and \<open>platform\<close>),
  \<open>get_free_space\<close> (called with a path, or with none for its default location),
  \<open>local_now()\<close>, \<open>installation_type()\<close> and \<open>sys.version_info\<close>.

  \<open>get_free_space\<close> is defined in \<open>kolibri.utils.system\<close>, outside this module. On the
  locations the server is configured with (its default location and the content
  directory) the call is taken to return its number. On a path that a client sends it
  may raise instead: \<open>get_free_space_raises\<close> gives the exception for such a path, and
  \<open>None\<close> when the call returns.
\<close>

record server_env =
  kolibri_version :: string
  get_urls :: "int \<times> string list"
  URL_PATH_PREFIX :: string
  CONTENT_DIR :: string
  DATABASES_default_ENGINE :: string
  DATABASES_default_NAME :: string
  TIME_ZONE :: string
  instance_model_id :: string
  instance_model_platform :: string
  get_free_space :: "string option \<Rightarrow> int"
  get_free_space_raises :: "string \<Rightarrow> exn option"
  local_now :: datetime
  installation_type :: string
  version_info :: "nat \<times> nat \<times> nat"

section \<open>\<open>DeviceProvisionView\<close>\<close>

text \<open>
  \<open>create\<close>, lines 56-61. \<open>is_valid(raise_exception=True)\<close> raises the validation error;
  nothing has been saved at that point. A view returns what it raised or its response,
  and the store it leaves.
\<close>

definition DeviceProvisionView_create ::
  "('i, 'o, 'db) serializer \<Rightarrow> request \<Rightarrow> 'db \<Rightarrow> (exn + response) \<times> 'db" where
  "DeviceProvisionView_create serializer_class request db =
     (case run_validation serializer_class None (data request) db of
        Inl errors \<Rightarrow> (Inl (ValidationError errors), db)
      | Inr validated_data \<Rightarrow>
          (case perform_save serializer_class None validated_data db of
             (saved, db') \<Rightarrow>
               (Inr (Response (to_representation serializer_class saved)
                       (Some HTTP_201_CREATED)), db')))"

section \<open>\<open>FreeSpaceView\<close>\<close>

text \<open>
  \<open>list\<close>, lines 67-76. The view has no handler around \<open>get_free_space(path)\<close>: what
  that call raises on the client's path leaves the view.
\<close>

definition FreeSpaceView_list :: "server_env \<Rightarrow> request \<Rightarrow> exn + response" where
  "FreeSpaceView_list env request =
     (let path = query_params_get (query_params request) ''path'';
          free = (case path of
                    None \<Rightarrow> Inr (get_free_space env None)
                  | Some p \<Rightarrow>
                      if p = ''Content'' then Inr (get_free_space env (Some (CONTENT_DIR env)))
                      else (case get_free_space_raises env p of
                              Some e \<Rightarrow> Inl e
                            | None \<Rightarrow> Inr (get_free_space env (Some p))))
      in case free of
           Inl e \<Rightarrow> Inl e
         | Inr free \<Rightarrow> Inr (Response [''freespace'' \<mapsto> PInt free] None))"

section \<open>\<open>DeviceInfoView\<close>\<close>

text \<open>
  Python's \<open>str.format\<close> of a non-negative integer: its decimal digits.
\<close>

definition digit_char :: "nat \<Rightarrow> char" where
  "digit_char d = ''0123456789'' ! d"

fun str_nat :: "nat \<Rightarrow> string" where
  "str_nat n = (if n < 10 then [digit_char n] else str_nat (n div 10) @ [digit_char (n mod 10)])"

declare str_nat.simps [simp del]

definition python_version :: "nat \<times> nat \<times> nat \<Rightarrow> string" where
  "python_version v =
     (case v of (major, minor, micro) \<Rightarrow>
        str_nat major @ ''.'' @ str_nat minor @ ''.'' @ str_nat micro)"

text \<open>
  The loop \<open>for key in keys_to_remove: del info[key]\<close>; \<open>del\<close> of a missing key raises
  \<open>KeyError\<close>.
\<close>

definition keys_to_remove :: "string list" where
  "keys_to_remove =
     [''urls'', ''database_path'', ''device_id'', ''os'', ''server_time'',
      ''server_timezone'', ''installer'', ''python_version'']"

fun del_keys :: "string list \<Rightarrow> pydict \<Rightarrow> exn + pydict" where
  "del_keys [] info = Inr info"
| "del_keys (key # keys) info =
     (case info key of
        None \<Rightarrow> Inl (KeyError key)
      | Some v \<Rightarrow> del_keys keys (info(key := None)))"

text \<open>
  \<open>get\<close>, lines 83-147. Python's \<open>s in url\<close> on strings is \<open>sublist s url\<close> (\<open>s\<close> occurs in
  \<open>url\<close> as a contiguous run), \<open>str.endswith\<close> is \<open>suffix\<close>, and a list is falsy exactly
  when it is empty.
\<close>

definition DeviceInfoView_get :: "server_env \<Rightarrow> request \<Rightarrow> exn + response" where
  "DeviceInfoView_get env request =
     (let info = Map.empty;
          info = info(''version'' \<mapsto> PStr (kolibri_version env));
          urls = (case get_urls env of (status, urls) \<Rightarrow> urls);
          urls = (if urls = [] then [build_absolute_uri request (URL_PATH_PREFIX env)]
                  else urls);
          filtered_urls =
            filter (\<lambda>url. \<not> sublist ''127.0.0.1'' url \<and> \<not> sublist ''localhost'' url) urls;
          urls = (if filtered_urls \<noteq> [] then filtered_urls else urls);
          info = info(''urls'' \<mapsto> PList (map PStr urls));
          db_engine = DATABASES_default_ENGINE env;
          info = (if suffix ''sqlite3'' db_engine
                  then info(''database_path'' \<mapsto> PStr (DATABASES_default_NAME env))
                  else if suffix ''postgresql'' db_engine
                  then info(''database_path'' \<mapsto> PStr ''postgresql'')
                  else info(''database_path'' \<mapsto> PStr ''unknown''));
          info = info(''device_id'' \<mapsto> PStr (instance_model_id env));
          info = info(''os'' \<mapsto> PStr (instance_model_platform env));
          info = info(''content_storage_free_space''
                   \<mapsto> PInt (get_free_space env (Some (CONTENT_DIR env))));
          info = info(''server_time'' \<mapsto> PDatetime (local_now env));
          info = info(''server_timezone'' \<mapsto> PStr (TIME_ZONE env));
          info = info(''installer'' \<mapsto> PStr (installation_type env));
          info = info(''python_version'' \<mapsto> PStr (python_version (version_info env)))
      in if \<not> user_is_superuser request
         then (case del_keys keys_to_remove info of
                 Inl e \<Rightarrow> Inl e
               | Inr info' \<Rightarrow> Inr (Response info' None))
         else Inr (Response info None))"

section \<open>\<open>DeviceSettingsView\<close>\<close>

text \<open>\<open>get\<close>, lines 154-156.\<close>

definition DeviceSettingsView_get ::
  "('s DeviceSettings_scheme, 's DeviceSettings_scheme, ('s, 'n, 'u, 'z) database_scheme)
     serializer
   \<Rightarrow> request \<Rightarrow> ('s, 'n, 'u, 'z) database_scheme
   \<Rightarrow> (exn + response) \<times> ('s, 'n, 'u, 'z) database_scheme" where
  "DeviceSettingsView_get DeviceSettingsSerializer request db =
     (case DeviceSettings_objects_get db of
        Inl e \<Rightarrow> (Inl e, db)
      | Inr settings \<Rightarrow>
          (Inr (Response (to_representation DeviceSettingsSerializer settings) None), db))"

text \<open>
  \<open>patch\<close>, lines 158-167. After \<open>save()\<close> the serializer's \<open>.data\<close> is the representation
  of the saved instance.
\<close>

definition DeviceSettingsView_patch ::
  "('s DeviceSettings_scheme, 's DeviceSettings_scheme, ('s, 'n, 'u, 'z) database_scheme)
     serializer
   \<Rightarrow> request \<Rightarrow> ('s, 'n, 'u, 'z) database_scheme
   \<Rightarrow> (exn + response) \<times> ('s, 'n, 'u, 'z) database_scheme" where
  "DeviceSettingsView_patch DeviceSettingsSerializer request db =
     (case DeviceSettings_objects_get db of
        Inl e \<Rightarrow> (Inl e, db)
      | Inr settings \<Rightarrow>
          (case run_validation DeviceSettingsSerializer (Some settings) (data request) db of
             Inl errors \<Rightarrow> (Inr (HttpResponseBadRequest errors), db)
           | Inr validated_data \<Rightarrow>
               (case perform_save DeviceSettingsSerializer (Some settings) validated_data db of
                  (saved, db') \<Rightarrow>
                    (Inr (Response (to_representation DeviceSettingsSerializer saved) None),
                     db'))))"

section \<open>\<open>DeviceNameView\<close>\<close>

text \<open>\<open>get\<close>, lines 173-175.\<close>

definition DeviceNameView_get ::
  "request \<Rightarrow> ('s, 'n, 'u, 'z) database_scheme
   \<Rightarrow> (exn + response) \<times> ('s, 'n, 'u, 'z) database_scheme" where
  "DeviceNameView_get request db =
     (case DeviceSettings_objects_get db of
        Inl e \<Rightarrow> (Inl e, db)
      | Inr settings \<Rightarrow> (Inr (Response [''name'' \<mapsto> name settings] None), db))"

text \<open>
  \<open>patch\<close>, lines 177-181. \<open>request.data["name"]\<close> raises \<open>KeyError\<close> when the body has no
  such key; the assignment takes the value as it is. The view has no handler around
  \<open>settings.save()\<close>, so what the save raises leaves the view, and the response reads
  \<open>settings.name\<close> from the instance as the save left it. \<open>clean_name\<close> is the parameter of
  \<open>DeviceSettings_save\<close>.
\<close>

definition DeviceNameView_patch ::
  "(pyval \<Rightarrow> exn + pyval) \<Rightarrow> request \<Rightarrow> ('s, 'n, 'u, 'z) database_scheme
   \<Rightarrow> (exn + response) \<times> ('s, 'n, 'u, 'z) database_scheme" where
  "DeviceNameView_patch clean_name request db =
     (case DeviceSettings_objects_get db of
        Inl e \<Rightarrow> (Inl e, db)
      | Inr settings \<Rightarrow>
          (case data request ''name'' of
             None \<Rightarrow> (Inl (KeyError ''name''), db)
           | Some new_name \<Rightarrow>
               (let settings = settings\<lparr>name := new_name\<rparr>
                in case DeviceSettings_save clean_name settings db of
                     Inl e \<Rightarrow> (Inl e, db)
                   | Inr (settings, db') \<Rightarrow>
                       (Inr (Response [''name'' \<mapsto> name settings] None), db'))))"

section \<open>\<open>UserSyncStatusViewSet\<close>\<close>

text \<open>
  \<open>get_queryset\<close>, lines 241-251. \<open>get_device_setting\<close> is defined in
  \<open>kolibri.core.device.utils\<close>, outside this module, so it is a parameter: from the store,
  a setting's name and a default it gives the setting's value. \<open>filter(...).exists()\<close> is
  true when some row passes the filter.
\<close>

definition get_queryset ::
  "(('s, 'n, 'u, 'z) database_scheme \<Rightarrow> string \<Rightarrow> bool \<Rightarrow> bool)
   \<Rightarrow> ('s, 'n, 'u, 'z) database_scheme \<Rightarrow> queryset" where
  "get_queryset get_device_setting db =
     (if get_device_setting db ''subset_of_users_device'' False
         \<and> \<not> (filter (\<lambda>location. subset_of_users_device location = False)
                 (DynamicNetworkLocation_table db) \<noteq> [])
      then UserSyncStatus_objects_none
      else UserSyncStatus_objects_all)"

section \<open>Example inputs\<close>

text \<open>
  Concrete environments, requests, stores and two serializers, on which the theorems
  below are evaluated. The settings serializer accepts a body whose \<open>name\<close> is a string
  and saves it as the device name; the provisioning serializer does the same with no
  instance and returns the validated data as the saved object. In the first
  environment \<open>get_free_space\<close> raises on the empty path, which has no existing
  directory above it.
\<close>

definition example_env :: server_env where
  "example_env =
     \<lparr>kolibri_version = ''0.15.0'',
      get_urls = (1, [''http://127.0.0.1:8080/'', ''http://192.168.1.5:8080/'']),
      URL_PATH_PREFIX = ''/'',
      CONTENT_DIR = ''/srv/content'',
      DATABASES_default_ENGINE = ''django.db.backends.sqlite3'',
      DATABASES_default_NAME = ''/srv/db.sqlite3'',
      TIME_ZONE = ''UTC'',
      instance_model_id = ''a1b2'',
      instance_model_platform = ''Linux'',
      get_free_space =
        (\<lambda>path. case path of
                   None \<Rightarrow> 7
                 | Some p \<Rightarrow> if p = ''/srv/content'' then 42 else 13),
      get_free_space_raises =
        (\<lambda>path. if path = [] then Some (Exception ''Could not calculate free space'')
                else None),
      local_now = 5,
      installation_type = ''pex'',
      version_info = (3, 6, 12)\<rparr>"

definition example_env_2 :: server_env where
  "example_env_2 =
     \<lparr>kolibri_version = ''0.15.0'',
      get_urls = (0, []),
      URL_PATH_PREFIX = ''/kolibri/'',
      CONTENT_DIR = ''/mnt/usb'',
      DATABASES_default_ENGINE = ''django.db.backends.postgresql'',
      DATABASES_default_NAME = ''kolibri'',
      TIME_ZONE = ''Europe/Sofia'',
      instance_model_id = ''ffff'',
      instance_model_platform = ''Windows'',
      get_free_space = (\<lambda>path. 42),
      get_free_space_raises = (\<lambda>path. None),
      local_now = 99,
      installation_type = ''exe'',
      version_info = (2, 7, 18)\<rparr>"

definition example_request :: request where
  "example_request =
     \<lparr>query_params = [(''path'', ''/tmp''), (''path'', ''Content'')],
      data = [''name'' \<mapsto> PStr ''lab''],
      user_is_superuser = True,
      build_absolute_uri = (\<lambda>location. ''http://192.168.1.5:8080'' @ location)\<rparr>"

definition example_db :: "(unit, unit, nat) database" where
  "example_db =
     \<lparr>DeviceSettings_table = Some \<lparr>name = PStr ''old''\<rparr>,
      DynamicNetworkLocation_table = [\<lparr>subset_of_users_device = True\<rparr>],
      UserSyncStatus_table = [1, 2]\<rparr>"

definition example_serializer ::
  "(DeviceSettings, DeviceSettings, (unit, unit, nat) database) serializer" where
  "example_serializer =
     \<lparr>run_validation =
        (\<lambda>instance d db.
           case d ''name'' of
             Some (PStr n) \<Rightarrow> Inr d
           | _ \<Rightarrow> Inl [''name'' \<mapsto> PStr ''Not a valid string.'']),
      perform_save =
        (\<lambda>instance d db.
           (\<lparr>name = (case d ''name'' of Some n \<Rightarrow> n | None \<Rightarrow> PNone)\<rparr>,
            db\<lparr>DeviceSettings_table :=
                 Some \<lparr>name = (case d ''name'' of Some n \<Rightarrow> n | None \<Rightarrow> PNone)\<rparr>\<rparr>)),
      to_representation = (\<lambda>settings. [''name'' \<mapsto> name settings])\<rparr>"

definition example_provision_serializer ::
  "(unit, pydict, (unit, unit, nat) database) serializer" where
  "example_provision_serializer =
     \<lparr>run_validation =
        (\<lambda>instance d db.
           case d ''name'' of
             Some (PStr n) \<Rightarrow> Inr d
           | _ \<Rightarrow> Inl [''name'' \<mapsto> PStr ''Not a valid string.'']),
      perform_save =
        (\<lambda>instance d db.
           (d, db\<lparr>DeviceSettings_table :=
                    Some \<lparr>name = (case d ''name'' of Some n \<Rightarrow> n | None \<Rightarrow> PNone)\<rparr>\<rparr>)),
      to_representation = (\<lambda>saved. saved)\<rparr>"

text \<open>
  A store whose settings record has, beside its name, a second field (the language), and
  a cleaning of the name as a required character field of at most 50 characters does
  it: null, the empty string and a longer string are rejected, a string is kept and a
  non-negative number becomes its decimal string.
\<close>

definition example_settings_db :: "(string, unit, nat) database" where
  "example_settings_db =
     \<lparr>DeviceSettings_table = Some \<lparr>name = PStr ''old'', \<dots> = ''en''\<rparr>,
      DynamicNetworkLocation_table = [\<lparr>subset_of_users_device = True\<rparr>],
      UserSyncStatus_table = [1, 2]\<rparr>"

definition example_clean_name :: "pyval \<Rightarrow> exn + pyval" where
  "example_clean_name v =
     (case v of
        PStr s \<Rightarrow>
          if s = [] then Inl (ValidationError [''name'' \<mapsto> PStr ''This field cannot be blank.''])
          else if 50 < length s
          then Inl (ValidationError
                      [''name'' \<mapsto> PStr ''Ensure this value has at most 50 characters.''])
          else Inr (PStr s)
      | PInt n \<Rightarrow>
          if 0 \<le> n then Inr (PStr (str_nat (nat n)))
          else Inr (PStr (''-'' @ str_nat (nat (- n))))
      | _ \<Rightarrow> Inl (ValidationError [''name'' \<mapsto> PStr ''This field cannot be null.'']))"

section \<open>Properties of \<open>map_status\<close>\<close>

lemma bucket_constants_distinct:
  "distinct [SYNCING, QUEUED, RECENTLY_SYNCED, NOT_RECENTLY_SYNCED]"
  by (simp add: SYNCING_def QUEUED_def RECENTLY_SYNCED_def NOT_RECENTLY_SYNCED_def)

text \<open>
  Claim C1, as stated, fails: a status that is neither active nor queued and has never
  synced is mapped to no bucket at all.
\<close>

theorem map_status_four_buckets_counterexample:
  "map_status 0 \<lparr>active = False, queued = False, last_synced = None\<rparr>
     \<notin> {Some SYNCING, Some QUEUED, Some RECENTLY_SYNCED, Some NOT_RECENTLY_SYNCED}"
  by (simp add: map_status_def)

text \<open>
  Claim C1, amended: for every sync-status record, \<open>map_status\<close> returns one of the four
  buckets \<open>SYNCING\<close>, \<open>QUEUED\<close>, \<open>RECENTLY_SYNCED\<close>, \<open>NOT_RECENTLY_SYNCED\<close> (four different
  strings) or no bucket (\<open>None\<close>); it returns \<open>None\<close> exactly when \<open>active\<close> and \<open>queued\<close>
  are false and \<open>last_synced\<close> is unset.
\<close>

theorem map_status_buckets:
  "map_status now status
     \<in> {None, Some SYNCING, Some QUEUED, Some RECENTLY_SYNCED, Some NOT_RECENTLY_SYNCED}
   \<and> (map_status now status = None
        \<longleftrightarrow> \<not> active status \<and> \<not> queued status \<and> last_synced status = None)
   \<and> distinct [SYNCING, QUEUED, RECENTLY_SYNCED, NOT_RECENTLY_SYNCED]"
proof -
  have "map_status now status
     \<in> {None, Some SYNCING, Some QUEUED, Some RECENTLY_SYNCED, Some NOT_RECENTLY_SYNCED}"
    by (simp add: map_status_def split: option.split)
  moreover have "map_status now status = None
        \<longleftrightarrow> \<not> active status \<and> \<not> queued status \<and> last_synced status = None"
    by (simp add: map_status_def split: option.split)
  ultimately show ?thesis
    using bucket_constants_distinct by blast
qed

text \<open>
  Claim C2: the precedence \<open>active\<close> over \<open>queued\<close> over \<open>last_synced\<close>. An active status is
  \<open>SYNCING\<close> whatever the other fields; otherwise a queued one is \<open>QUEUED\<close>; otherwise,
  with \<open>last_synced\<close> set, the result is \<open>RECENTLY_SYNCED\<close> exactly when less than 15
  minutes have elapsed and \<open>NOT_RECENTLY_SYNCED\<close> exactly when they have not; and with
  nothing set the result is \<open>None\<close>.
\<close>

theorem map_status_precedence:
  "(active status \<longrightarrow> map_status now status = Some SYNCING)
   \<and> (\<not> active status \<and> queued status \<longrightarrow> map_status now status = Some QUEUED)
   \<and> (\<not> active status \<and> \<not> queued status \<and> last_synced status = Some t \<longrightarrow>
        (map_status now status = Some RECENTLY_SYNCED \<longleftrightarrow> now - t < 15 * 60 * 1000000)
        \<and> (map_status now status = Some NOT_RECENTLY_SYNCED \<longleftrightarrow> \<not> now - t < 15 * 60 * 1000000)
        \<and> map_status now status \<in> {Some RECENTLY_SYNCED, Some NOT_RECENTLY_SYNCED})
   \<and> (\<not> active status \<and> \<not> queued status \<and> last_synced status = None \<longrightarrow>
        map_status now status = None)"
  by (simp add: map_status_def timedelta_minutes_def
      RECENTLY_SYNCED_def NOT_RECENTLY_SYNCED_def)

theorem map_status_precedence_witness:
  "map_status 5 \<lparr>active = True, queued = True, last_synced = Some 0\<rparr> = Some SYNCING
   \<and> map_status 5 \<lparr>active = False, queued = True, last_synced = Some 0\<rparr> = Some QUEUED
   \<and> map_status 899999999 \<lparr>active = False, queued = False, last_synced = Some 0\<rparr>
       = Some RECENTLY_SYNCED
   \<and> map_status 900000000 \<lparr>active = False, queued = False, last_synced = Some 0\<rparr>
       = Some NOT_RECENTLY_SYNCED
   \<and> map_status 5 \<lparr>active = False, queued = False, last_synced = None\<rparr> = None"
  using
    map_status_precedence [of "\<lparr>active = True, queued = True, last_synced = Some 0\<rparr>" 5 0]
    map_status_precedence [of "\<lparr>active = False, queued = True, last_synced = Some 0\<rparr>" 5 0]
    map_status_precedence
      [of "\<lparr>active = False, queued = False, last_synced = Some 0\<rparr>" 899999999 0]
    map_status_precedence
      [of "\<lparr>active = False, queued = False, last_synced = Some 0\<rparr>" 900000000 0]
    map_status_precedence [of "\<lparr>active = False, queued = False, last_synced = None\<rparr>" 5 0]
  by simp

section \<open>Validation in \<open>DeviceSettingsView.patch\<close> and \<open>DeviceProvisionView.create\<close>\<close>

text \<open>
  Claim C3: with the settings record in the store, \<open>DeviceSettingsView.patch\<close> answers data
  that the serializer rejects with \<open>HttpResponseBadRequest\<close> (status 400) built from the
  serializer's errors, and leaves the store as it was: \<open>save()\<close> is not reached. Data
  the serializer accepts is saved, and the response (status 200) is the serializer's
  representation of the saved settings, with the store as the save left it.
\<close>

theorem DeviceSettingsView_patch_validation:
  assumes "DeviceSettings_table db = Some settings"
  shows "(run_validation ser (Some settings) (data request) db = Inl errors \<longrightarrow>
            DeviceSettingsView_patch ser request db = (Inr (HttpResponseBadRequest errors), db)
            \<and> status_code (HttpResponseBadRequest errors) = 400)
       \<and> (run_validation ser (Some settings) (data request) db = Inr validated_data
            \<and> perform_save ser (Some settings) validated_data db = (saved, db') \<longrightarrow>
            DeviceSettingsView_patch ser request db
              = (Inr (Response (to_representation ser saved) None), db')
            \<and> status_code (Response (to_representation ser saved) None) = 200)"
  using assms
  by (simp add: DeviceSettingsView_patch_def DeviceSettings_objects_get_def
      HTTP_400_BAD_REQUEST_def HTTP_200_OK_def)

theorem DeviceSettingsView_patch_validation_witness:
  "DeviceSettingsView_patch example_serializer
       (example_request\<lparr>data := [''name'' \<mapsto> PInt 3]\<rparr>) example_db
     = (Inr (HttpResponseBadRequest [''name'' \<mapsto> PStr ''Not a valid string.'']), example_db)
   \<and> DeviceSettingsView_patch example_serializer example_request example_db
     = (Inr (Response [''name'' \<mapsto> PStr ''lab''] None),
        example_db\<lparr>DeviceSettings_table := Some \<lparr>name = PStr ''lab''\<rparr>\<rparr>)"
proof -
  have t: "DeviceSettings_table example_db = Some \<lparr>name = PStr ''old''\<rparr>"
    by (simp add: example_db_def)
  have bad: "run_validation example_serializer (Some \<lparr>name = PStr ''old''\<rparr>)
               (data (example_request\<lparr>data := [''name'' \<mapsto> PInt 3]\<rparr>)) example_db
             = Inl [''name'' \<mapsto> PStr ''Not a valid string.'']"
    by (simp add: example_serializer_def)
  have good: "run_validation example_serializer (Some \<lparr>name = PStr ''old''\<rparr>)
               (data example_request) example_db
             = Inr [''name'' \<mapsto> PStr ''lab'']"
    by (simp add: example_serializer_def example_request_def)
  have saved: "perform_save example_serializer (Some \<lparr>name = PStr ''old''\<rparr>)
                 [''name'' \<mapsto> PStr ''lab''] example_db
               = (\<lparr>name = PStr ''lab''\<rparr>,
                  example_db\<lparr>DeviceSettings_table := Some \<lparr>name = PStr ''lab''\<rparr>\<rparr>)"
    by (simp add: example_serializer_def)
  have repr: "to_representation example_serializer \<lparr>name = PStr ''lab''\<rparr>
                = [''name'' \<mapsto> PStr ''lab'']"
    by (simp add: example_serializer_def)
  from DeviceSettingsView_patch_validation [OF t, of example_serializer
      "example_request\<lparr>data := [''name'' \<mapsto> PInt 3]\<rparr>"
      "[''name'' \<mapsto> PStr ''Not a valid string.'']"]
    DeviceSettingsView_patch_validation [OF t, of example_serializer example_request _
      "[''name'' \<mapsto> PStr ''lab'']" "\<lparr>name = PStr ''lab''\<rparr>"
      "example_db\<lparr>DeviceSettings_table := Some \<lparr>name = PStr ''lab''\<rparr>\<rparr>"]
  show ?thesis
    using bad good saved repr by simp
qed

text \<open>
  Claim C4: \<open>DeviceProvisionView.create\<close> raises the validation error, carrying the
  serializer's errors, for a payload the serializer rejects, and the store is as it was;
  for a payload the serializer accepts it answers with status 201 and the representation
  of what \<open>save()\<close> returned, with the store as the save left it.
\<close>

theorem DeviceProvisionView_create_validation:
  "(run_validation ser None (data request) db = Inl errors \<longrightarrow>
      DeviceProvisionView_create ser request db = (Inl (ValidationError errors), db))
   \<and> (run_validation ser None (data request) db = Inr validated_data
        \<and> perform_save ser None validated_data db = (saved, db') \<longrightarrow>
        DeviceProvisionView_create ser request db
          = (Inr (Response (to_representation ser saved) (Some HTTP_201_CREATED)), db')
        \<and> status_code (Response (to_representation ser saved) (Some HTTP_201_CREATED)) = 201)"
  by (simp add: DeviceProvisionView_create_def HTTP_201_CREATED_def)

theorem DeviceProvisionView_create_validation_witness:
  "DeviceProvisionView_create example_provision_serializer
       (example_request\<lparr>data := [''name'' \<mapsto> PInt 3]\<rparr>) example_db
     = (Inl (ValidationError [''name'' \<mapsto> PStr ''Not a valid string.'']), example_db)
   \<and> DeviceProvisionView_create example_provision_serializer example_request example_db
     = (Inr (Response [''name'' \<mapsto> PStr ''lab''] (Some 201)),
        example_db\<lparr>DeviceSettings_table := Some \<lparr>name = PStr ''lab''\<rparr>\<rparr>)"
proof -
  have bad: "run_validation example_provision_serializer None
               (data (example_request\<lparr>data := [''name'' \<mapsto> PInt 3]\<rparr>)) example_db
             = Inl [''name'' \<mapsto> PStr ''Not a valid string.'']"
    by (simp add: example_provision_serializer_def)
  have good: "run_validation example_provision_serializer None (data example_request) example_db
             = Inr [''name'' \<mapsto> PStr ''lab'']"
    by (simp add: example_provision_serializer_def example_request_def)
  have saved: "perform_save example_provision_serializer None
                 [''name'' \<mapsto> PStr ''lab''] example_db
               = ([''name'' \<mapsto> PStr ''lab''],
                  example_db\<lparr>DeviceSettings_table := Some \<lparr>name = PStr ''lab''\<rparr>\<rparr>)"
    by (simp add: example_provision_serializer_def)
  have repr: "to_representation example_provision_serializer [''name'' \<mapsto> PStr ''lab'']
                = [''name'' \<mapsto> PStr ''lab'']"
    by (simp add: example_provision_serializer_def)
  from DeviceProvisionView_create_validation [of example_provision_serializer
      "example_request\<lparr>data := [''name'' \<mapsto> PInt 3]\<rparr>" example_db
      "[''name'' \<mapsto> PStr ''Not a valid string.'']"]
    DeviceProvisionView_create_validation [of example_provision_serializer example_request
      example_db _ "[''name'' \<mapsto> PStr ''lab'']" "[''name'' \<mapsto> PStr ''lab'']"
      "example_db\<lparr>DeviceSettings_table := Some \<lparr>name = PStr ''lab''\<rparr>\<rparr>"]
  show ?thesis
    using bad good saved repr by (simp add: HTTP_201_CREATED_def)
qed

section \<open>\<open>FreeSpaceView.list\<close>\<close>

lemma query_params_get_None: "query_params_get qs key = None \<longleftrightarrow> key \<notin> fst ` set qs"
  by (simp add: query_params_get_def map_of_eq_None_iff)

text \<open>
  Claim C5, as stated, fails: a request with the empty path (\<open>?path=\<close>) reaches
  \<open>get_free_space("")\<close>, and where that call raises the view returns no response.
\<close>

theorem FreeSpaceView_list_every_request_counterexample:
  "FreeSpaceView_list example_env (example_request\<lparr>query_params := [(''path'', [])]\<rparr>)
     = Inl (Exception ''Could not calculate free space'')"
  by (simp add: FreeSpaceView_list_def query_params_get_def example_env_def)

text \<open>
  Claim C5, amended: for every request on which the call of \<open>get_free_space\<close> returns,
  \<open>FreeSpaceView.list\<close> returns a response with the single key \<open>freespace\<close> and status 200,
  whose value is the free space of the default location when the query string has no
  \<open>path\<close>, of the configured content directory when \<open>path\<close> is the string \<open>Content\<close>, and of
  the given path itself otherwise; when \<open>get_free_space\<close> raises on the path the client
  gave, the view raises that exception and returns no response.
\<close>

theorem FreeSpaceView_list_paths:
  "(''path'' \<notin> fst ` set (query_params request) \<longrightarrow>
      FreeSpaceView_list env request
        = Inr (Response [''freespace'' \<mapsto> PInt (get_free_space env None)] None))
   \<and> (query_params_get (query_params request) ''path'' = Some ''Content'' \<longrightarrow>
      FreeSpaceView_list env request
        = Inr (Response
                 [''freespace'' \<mapsto> PInt (get_free_space env (Some (CONTENT_DIR env)))] None))
   \<and> (query_params_get (query_params request) ''path'' = Some path \<and> path \<noteq> ''Content''
        \<and> get_free_space_raises env path = None \<longrightarrow>
      FreeSpaceView_list env request
        = Inr (Response [''freespace'' \<mapsto> PInt (get_free_space env (Some path))] None))
   \<and> (query_params_get (query_params request) ''path'' = Some path \<and> path \<noteq> ''Content''
        \<and> get_free_space_raises env path = Some e \<longrightarrow>
      FreeSpaceView_list env request = Inl e)
   \<and> (case FreeSpaceView_list env request of
         Inl e \<Rightarrow> True
       | Inr r \<Rightarrow> dom (response_body r) = {''freespace''} \<and> status_code r = 200)"
  using query_params_get_None [of "query_params request" "''path''"]
  by (auto simp add: FreeSpaceView_list_def Let_def HTTP_200_OK_def split: option.splits)

theorem FreeSpaceView_list_paths_witness:
  "FreeSpaceView_list example_env (example_request\<lparr>query_params := []\<rparr>)
     = Inr (Response [''freespace'' \<mapsto> PInt 7] None)
   \<and> FreeSpaceView_list example_env example_request
     = Inr (Response [''freespace'' \<mapsto> PInt 42] None)
   \<and> FreeSpaceView_list example_env (example_request\<lparr>query_params := [(''path'', ''/tmp'')]\<rparr>)
     = Inr (Response [''freespace'' \<mapsto> PInt 13] None)
   \<and> FreeSpaceView_list example_env (example_request\<lparr>query_params := [(''path'', [])]\<rparr>)
     = Inl (Exception ''Could not calculate free space'')"
proof -
  have absent: "''path'' \<notin> fst ` set (query_params (example_request\<lparr>query_params := []\<rparr>))"
    by simp
  have content: "query_params_get (query_params example_request) ''path'' = Some ''Content''"
    by (simp add: example_request_def query_params_get_def)
  have other: "query_params_get
                 (query_params (example_request\<lparr>query_params := [(''path'', ''/tmp'')]\<rparr>)) ''path''
               = Some ''/tmp'' \<and> ''/tmp'' \<noteq> ''Content''
               \<and> get_free_space_raises example_env ''/tmp'' = None"
    by (simp add: query_params_get_def example_env_def)
  have empty: "query_params_get
                 (query_params (example_request\<lparr>query_params := [(''path'', [])]\<rparr>)) ''path''
               = Some [] \<and> [] \<noteq> ''Content''
               \<and> get_free_space_raises example_env []
                   = Some (Exception ''Could not calculate free space'')"
    by (simp add: query_params_get_def example_env_def)
  have free: "get_free_space example_env None = 7"
      "get_free_space example_env (Some (CONTENT_DIR example_env)) = 42"
      "get_free_space example_env (Some ''/tmp'') = 13"
    by (simp_all add: example_env_def)
  from FreeSpaceView_list_paths [of "example_request\<lparr>query_params := []\<rparr>" example_env]
    FreeSpaceView_list_paths [of example_request example_env]
    FreeSpaceView_list_paths
      [of "example_request\<lparr>query_params := [(''path'', ''/tmp'')]\<rparr>" example_env "''/tmp''"]
    FreeSpaceView_list_paths
      [of "example_request\<lparr>query_params := [(''path'', [])]\<rparr>" example_env "[]"
        "Exception ''Could not calculate free space''"]
  show ?thesis
    using absent content other empty free by simp
qed

section \<open>\<open>DeviceNameView\<close> and the GET handlers\<close>

text \<open>
  Claim C6, as stated, fails: for a body whose \<open>name\<close> the model's validation rejects (here
  the empty string), \<open>settings.save()\<close> raises, so the view returns no \<open>{"name": ...}\<close> and
  nothing is stored.
\<close>

theorem DeviceNameView_patch_new_name_counterexample:
  "DeviceNameView_patch example_clean_name
       (example_request\<lparr>data := [''name'' \<mapsto> PStr []]\<rparr>) example_settings_db
     = (Inl (ValidationError [''name'' \<mapsto> PStr ''This field cannot be blank.'']),
        example_settings_db)"
  by (simp add: DeviceNameView_patch_def DeviceSettings_objects_get_def DeviceSettings_save_def
      example_settings_db_def example_clean_name_def)

text \<open>
  Claim C6, amended: \<open>DeviceNameView.patch\<close> assigns \<open>request.data["name"]\<close> to the \<open>name\<close>
  field of the singleton \<open>DeviceSettings\<close> record and saves it. When the validation of the
  save accepts the name, the record is stored with the name as the validation cleaned
  it, the response is \<open>{"name": that name}\<close>, and every other field of the stored record
  and every other table of the store is as before; when the validation rejects the
  name, the view raises the validation error and the store is unchanged.
\<close>

theorem DeviceNameView_patch_frame:
  assumes "DeviceSettings_table db = Some settings"
    and "data request ''name'' = Some new_name"
  shows "(clean_name new_name = Inr cleaned \<longrightarrow>
            fst (DeviceNameView_patch clean_name request db)
              = Inr (Response [''name'' \<mapsto> cleaned] None)
            \<and> map_option name (DeviceSettings_table (snd (DeviceNameView_patch clean_name request db)))
                = Some cleaned
            \<and> map_option DeviceSettings.more
                  (DeviceSettings_table (snd (DeviceNameView_patch clean_name request db)))
                = Some (DeviceSettings.more settings)
            \<and> DynamicNetworkLocation_table (snd (DeviceNameView_patch clean_name request db))
                = DynamicNetworkLocation_table db
            \<and> UserSyncStatus_table (snd (DeviceNameView_patch clean_name request db))
                = UserSyncStatus_table db
            \<and> database.more (snd (DeviceNameView_patch clean_name request db))
                = database.more db)
       \<and> (clean_name new_name = Inl e \<longrightarrow>
            DeviceNameView_patch clean_name request db = (Inl e, db))"
  using assms
  by (simp add: DeviceNameView_patch_def DeviceSettings_objects_get_def DeviceSettings_save_def
      Let_def)

theorem DeviceNameView_patch_frame_witness:
  "DeviceNameView_patch example_clean_name example_request example_settings_db
     = (Inr (Response [''name'' \<mapsto> PStr ''lab''] None),
        example_settings_db
          \<lparr>DeviceSettings_table := Some \<lparr>name = PStr ''lab'', \<dots> = ''en''\<rparr>\<rparr>)
   \<and> DeviceNameView_patch example_clean_name
         (example_request\<lparr>data := [''name'' \<mapsto> PInt 3]\<rparr>) example_settings_db
     = (Inr (Response [''name'' \<mapsto> PStr ''3''] None),
        example_settings_db
          \<lparr>DeviceSettings_table := Some \<lparr>name = PStr ''3'', \<dots> = ''en''\<rparr>\<rparr>)
   \<and> DeviceNameView_patch example_clean_name
         (example_request\<lparr>data := [''name'' \<mapsto> PNone]\<rparr>) example_settings_db
     = (Inl (ValidationError [''name'' \<mapsto> PStr ''This field cannot be null.'']),
        example_settings_db)"
proof -
  have t: "DeviceSettings_table example_settings_db
             = Some \<lparr>name = PStr ''old'', \<dots> = ''en''\<rparr>"
    by (simp add: example_settings_db_def)
  have n1: "data example_request ''name'' = Some (PStr ''lab'')"
    by (simp add: example_request_def)
  have n2: "data (example_request\<lparr>data := [''name'' \<mapsto> PInt 3]\<rparr>) ''name'' = Some (PInt 3)"
    by simp
  have n3: "data (example_request\<lparr>data := [''name'' \<mapsto> PNone]\<rparr>) ''name'' = Some PNone"
    by simp
  have c1: "example_clean_name (PStr ''lab'') = Inr (PStr ''lab'')"
    by (simp add: example_clean_name_def)
  have c2: "example_clean_name (PInt 3) = Inr (PStr ''3'')"
    by (simp add: example_clean_name_def str_nat.simps digit_char_def)
  have c3: "example_clean_name PNone
              = Inl (ValidationError [''name'' \<mapsto> PStr ''This field cannot be null.''])"
    by (simp add: example_clean_name_def)
  have whole: "d = example_settings_db\<lparr>DeviceSettings_table := Some \<lparr>name = n, \<dots> = ''en''\<rparr>\<rparr>"
    if "map_option name (DeviceSettings_table d) = Some n"
      and "map_option DeviceSettings.more (DeviceSettings_table d) = Some ''en''"
      and "DynamicNetworkLocation_table d = DynamicNetworkLocation_table example_settings_db"
      and "UserSyncStatus_table d = UserSyncStatus_table example_settings_db"
      and "database.more d = database.more example_settings_db"
    for d :: "(string, unit, nat) database" and n
    using that by (cases d) (auto simp add: example_settings_db_def)
  have m: "DeviceSettings.more \<lparr>name = PStr ''old'', \<dots> = ''en''\<rparr> = ''en''"
    by simp
  from DeviceNameView_patch_frame [OF t n1, of example_clean_name "PStr ''lab''"] c1
  have 1: "DeviceNameView_patch example_clean_name example_request example_settings_db
     = (Inr (Response [''name'' \<mapsto> PStr ''lab''] None),
        example_settings_db
          \<lparr>DeviceSettings_table := Some \<lparr>name = PStr ''lab'', \<dots> = ''en''\<rparr>\<rparr>)"
    unfolding m by (simp add: prod_eq_iff whole)
  from DeviceNameView_patch_frame [OF t n2, of example_clean_name "PStr ''3''"] c2
  have 2: "DeviceNameView_patch example_clean_name
         (example_request\<lparr>data := [''name'' \<mapsto> PInt 3]\<rparr>) example_settings_db
     = (Inr (Response [''name'' \<mapsto> PStr ''3''] None),
        example_settings_db
          \<lparr>DeviceSettings_table := Some \<lparr>name = PStr ''3'', \<dots> = ''en''\<rparr>\<rparr>)"
    unfolding m by (simp add: prod_eq_iff whole)
  from DeviceNameView_patch_frame [OF t n3, of example_clean_name _
      "ValidationError [''name'' \<mapsto> PStr ''This field cannot be null.'']"] c3
  have 3: "DeviceNameView_patch example_clean_name
         (example_request\<lparr>data := [''name'' \<mapsto> PNone]\<rparr>) example_settings_db
     = (Inl (ValidationError [''name'' \<mapsto> PStr ''This field cannot be null.'']),
        example_settings_db)"
    by simp
  from 1 2 3 show ?thesis
    by (intro conjI)
qed

text \<open>
  Claim C7: the GET handlers of \<open>DeviceSettingsView\<close> and \<open>DeviceNameView\<close> leave the store
  exactly as it was, and with the settings record in the store their responses are
  projections of that record: the serializer's representation of it, respectively
  \<open>{"name": settings.name}\<close>.
\<close>

theorem settings_get_read_only:
  "snd (DeviceSettingsView_get ser request db) = db
   \<and> snd (DeviceNameView_get request db) = db
   \<and> (DeviceSettings_table db = Some settings \<longrightarrow>
        fst (DeviceSettingsView_get ser request db)
          = Inr (Response (to_representation ser settings) None)
        \<and> fst (DeviceNameView_get request db) = Inr (Response [''name'' \<mapsto> name settings] None))"
  by (simp add: DeviceSettingsView_get_def DeviceNameView_get_def DeviceSettings_objects_get_def
      split: option.split)

theorem settings_get_read_only_witness:
  "DeviceSettingsView_get example_serializer example_request example_db
     = (Inr (Response [''name'' \<mapsto> PStr ''old''] None), example_db)
   \<and> DeviceNameView_get example_request example_db
     = (Inr (Response [''name'' \<mapsto> PStr ''old''] None), example_db)"
proof -
  have t: "DeviceSettings_table example_db = Some \<lparr>name = PStr ''old''\<rparr>"
    by (simp add: example_db_def)
  have repr: "to_representation example_serializer \<lparr>name = PStr ''old''\<rparr>
                = [''name'' \<mapsto> PStr ''old'']"
    by (simp add: example_serializer_def)
  from settings_get_read_only
      [of example_serializer example_request example_db "\<lparr>name = PStr ''old''\<rparr>"]
  show ?thesis
    using t repr by (simp add: prod_eq_iff)
qed

section \<open>\<open>UserSyncStatusViewSet.get_queryset\<close>\<close>

text \<open>
  Claim C8: \<open>get_queryset\<close> is \<open>UserSyncStatus.objects.none()\<close> exactly when the device
  setting \<open>subset_of_users_device\<close> is true and no \<open>DynamicNetworkLocation\<close> has
  \<open>subset_of_users_device = False\<close>; in every other case it is \<open>objects.all()\<close>, which
  evaluates to all rows of the table.
\<close>

theorem get_queryset_none_iff:
  "(get_queryset get_device_setting db = UserSyncStatus_objects_none
      \<longleftrightarrow> get_device_setting db ''subset_of_users_device'' False
          \<and> \<not> (\<exists>location \<in> set (DynamicNetworkLocation_table db).
                  subset_of_users_device location = False))
   \<and> (get_queryset get_device_setting db = UserSyncStatus_objects_all
      \<longleftrightarrow> \<not> (get_device_setting db ''subset_of_users_device'' False
          \<and> \<not> (\<exists>location \<in> set (DynamicNetworkLocation_table db).
                  subset_of_users_device location = False)))
   \<and> queryset_rows db UserSyncStatus_objects_none = []
   \<and> queryset_rows db UserSyncStatus_objects_all = UserSyncStatus_table db"
  by (auto simp add: get_queryset_def filter_empty_conv)

theorem get_queryset_none_iff_witness:
  "get_queryset (\<lambda>db setting default. True) example_db = UserSyncStatus_objects_none
   \<and> get_queryset (\<lambda>db setting default. default) example_db = UserSyncStatus_objects_all
   \<and> get_queryset (\<lambda>db setting default. True)
         (example_db\<lparr>DynamicNetworkLocation_table :=
            [\<lparr>subset_of_users_device = True\<rparr>, \<lparr>subset_of_users_device = False\<rparr>]\<rparr>)
       = UserSyncStatus_objects_all"
  using get_queryset_none_iff [of "\<lambda>db setting default. True" example_db]
    get_queryset_none_iff [of "\<lambda>db setting default. default" example_db]
    get_queryset_none_iff [of "\<lambda>db setting default. True"
      "example_db\<lparr>DynamicNetworkLocation_table :=
         [\<lparr>subset_of_users_device = True\<rparr>, \<lparr>subset_of_users_device = False\<rparr>]\<rparr>"]
  by (simp add: example_db_def)

section \<open>\<open>DeviceInfoView.get\<close>\<close>

lemma del_keys_info:
  "del_keys keys_to_remove
     [''version'' \<mapsto> a, ''urls'' \<mapsto> b, ''database_path'' \<mapsto> c, ''device_id'' \<mapsto> d,
      ''os'' \<mapsto> e, ''content_storage_free_space'' \<mapsto> f, ''server_time'' \<mapsto> g,
      ''server_timezone'' \<mapsto> h, ''installer'' \<mapsto> i, ''python_version'' \<mapsto> j]
   = Inr [''version'' \<mapsto> a, ''content_storage_free_space'' \<mapsto> f]"
  by (simp add: keys_to_remove_def)

lemma if_map_upd:
  "(if c then m(k \<mapsto> a) else m(k \<mapsto> b)) = m(k \<mapsto> (if c then a else b))"
  by simp

lemma DeviceInfoView_get_restricted:
  assumes "\<not> user_is_superuser request"
  shows "DeviceInfoView_get env request
           = Inr (Response
                [''version'' \<mapsto> PStr (kolibri_version env),
                 ''content_storage_free_space''
                   \<mapsto> PInt (get_free_space env (Some (CONTENT_DIR env)))] None)"
  unfolding DeviceInfoView_get_def Let_def if_map_upd del_keys_info
  using assms by simp

text \<open>
  Claim C9: the response of \<open>DeviceInfoView.get\<close> to a user who is not a superuser has
  status 200 and exactly the two keys \<open>version\<close> and \<open>content_storage_free_space\<close>, with
  the Kolibri version and the free space of the content directory. So two server
  environments that agree on these two values give the same response to any two such
  requests: the URLs, database path, device id, OS, server time, time zone, installer
  and Python version have no influence on it.
\<close>

theorem DeviceInfoView_get_non_superuser:
  assumes "\<not> user_is_superuser request1" and "\<not> user_is_superuser request2"
    and "kolibri_version env1 = kolibri_version env2"
    and "get_free_space env1 (Some (CONTENT_DIR env1))
           = get_free_space env2 (Some (CONTENT_DIR env2))"
  shows "DeviceInfoView_get env1 request1 = DeviceInfoView_get env2 request2
       \<and> DeviceInfoView_get env1 request1
           = Inr (Response
                [''version'' \<mapsto> PStr (kolibri_version env1),
                 ''content_storage_free_space''
                   \<mapsto> PInt (get_free_space env1 (Some (CONTENT_DIR env1)))] None)
       \<and> (case DeviceInfoView_get env1 request1 of
             Inl e \<Rightarrow> False
           | Inr r \<Rightarrow>
               dom (response_body r) = {''version'', ''content_storage_free_space''}
               \<and> status_code r = 200)"
proof -
  have r1: "DeviceInfoView_get env1 request1
           = Inr (Response
                [''version'' \<mapsto> PStr (kolibri_version env1),
                 ''content_storage_free_space''
                   \<mapsto> PInt (get_free_space env1 (Some (CONTENT_DIR env1)))] None)"
    using assms(1) by (rule DeviceInfoView_get_restricted)
  have r2: "DeviceInfoView_get env2 request2
           = Inr (Response
                [''version'' \<mapsto> PStr (kolibri_version env2),
                 ''content_storage_free_space''
                   \<mapsto> PInt (get_free_space env2 (Some (CONTENT_DIR env2)))] None)"
    using assms(2) by (rule DeviceInfoView_get_restricted)
  have same: "DeviceInfoView_get env1 request1 = DeviceInfoView_get env2 request2"
    unfolding r1 r2 using assms(3,4) by simp
  have shape: "case DeviceInfoView_get env1 request1 of
             Inl e \<Rightarrow> False
           | Inr r \<Rightarrow>
               dom (response_body r) = {''version'', ''content_storage_free_space''}
               \<and> status_code r = 200"
    unfolding r1 by (auto simp add: HTTP_200_OK_def)
  from same r1 shape show ?thesis
    by (intro conjI)
qed

theorem DeviceInfoView_get_non_superuser_witness:
  "DeviceInfoView_get example_env (example_request\<lparr>user_is_superuser := False\<rparr>)
     = DeviceInfoView_get example_env_2
         (example_request\<lparr>user_is_superuser := False, data := Map.empty\<rparr>)
   \<and> DeviceInfoView_get example_env (example_request\<lparr>user_is_superuser := False\<rparr>)
     = Inr (Response [''version'' \<mapsto> PStr ''0.15.0'',
                      ''content_storage_free_space'' \<mapsto> PInt 42] None)"
proof -
  have 1: "\<not> user_is_superuser (example_request\<lparr>user_is_superuser := False\<rparr>)"
    by simp
  have 2: "\<not> user_is_superuser (example_request\<lparr>user_is_superuser := False, data := Map.empty\<rparr>)"
    by simp
  have 3: "kolibri_version example_env = kolibri_version example_env_2"
    by (simp add: example_env_def example_env_2_def)
  have 4: "get_free_space example_env (Some (CONTENT_DIR example_env))
             = get_free_space example_env_2 (Some (CONTENT_DIR example_env_2))"
    by (simp add: example_env_def example_env_2_def)
  have 5: "kolibri_version example_env = ''0.15.0''"
    and 6: "get_free_space example_env (Some (CONTENT_DIR example_env)) = 42"
    by (simp_all add: example_env_def)
  from DeviceInfoView_get_non_superuser [OF 1 2 3 4] show ?thesis
    unfolding 5 6 by blast
qed

text \<open>
  Claim C10: the response of \<open>DeviceInfoView.get\<close> to a superuser has under \<open>urls\<close> a list
  that is never empty. When \<open>get_urls\<close> gives no URL it is the request's own absolute URL
  alone; otherwise it is the given URLs without those that contain \<open>127.0.0.1\<close> or
  \<open>localhost\<close> when some URL contains neither, and all given URLs when every one of them
  contains one of the two.
\<close>

theorem DeviceInfoView_get_urls:
  assumes "user_is_superuser request" and "get_urls env = (status, given)"
  shows "\<exists>info urls.
           DeviceInfoView_get env request = Inr (Response info None)
           \<and> info ''urls'' = Some (PList (map PStr urls))
           \<and> urls \<noteq> []
           \<and> (given = [] \<longrightarrow> urls = [build_absolute_uri request (URL_PATH_PREFIX env)])
           \<and> (given \<noteq> []
                \<and> (\<exists>url \<in> set given. \<not> sublist ''127.0.0.1'' url \<and> \<not> sublist ''localhost'' url)
                \<longrightarrow> urls = filter (\<lambda>url. \<not> sublist ''127.0.0.1'' url \<and> \<not> sublist ''localhost'' url)
                             given)
           \<and> (given \<noteq> []
                \<and> \<not> (\<exists>url \<in> set given. \<not> sublist ''127.0.0.1'' url \<and> \<not> sublist ''localhost'' url)
                \<longrightarrow> urls = given)"
proof -
  define keep where
    "keep = (\<lambda>url. \<not> sublist ''127.0.0.1'' url \<and> \<not> sublist ''localhost'' url)"
  define base where
    "base = (if given = [] then [build_absolute_uri request (URL_PATH_PREFIX env)] else given)"
  define urls where "urls = (if filter keep base \<noteq> [] then filter keep base else base)"
  have "\<exists>info. DeviceInfoView_get env request = Inr (Response info None)
          \<and> info ''urls'' = Some (PList (map PStr urls))"
    unfolding DeviceInfoView_get_def Let_def if_map_upd urls_def base_def keep_def
    using assms by simp
  moreover have "urls \<noteq> []"
    by (simp add: urls_def base_def)
  moreover have "given = [] \<longrightarrow> urls = [build_absolute_uri request (URL_PATH_PREFIX env)]"
    by (simp add: urls_def base_def)
  moreover have "given \<noteq> [] \<and> (\<exists>url \<in> set given. keep url) \<longrightarrow> urls = filter keep given"
    by (auto simp add: urls_def base_def filter_empty_conv)
  moreover have "given \<noteq> [] \<and> \<not> (\<exists>url \<in> set given. keep url) \<longrightarrow> urls = given"
    by (auto simp add: urls_def base_def filter_empty_conv)
  ultimately show ?thesis
    unfolding keep_def by blast
qed

theorem DeviceInfoView_get_urls_witness:
  "\<exists>info. DeviceInfoView_get example_env example_request = Inr (Response info None)
          \<and> info ''urls'' = Some (PList [PStr ''http://192.168.1.5:8080/''])"
proof -
  have su: "user_is_superuser example_request"
    by (simp add: example_request_def)
  have gu: "get_urls example_env
              = (1, [''http://127.0.0.1:8080/'', ''http://192.168.1.5:8080/''])"
    by (simp add: example_env_def)
  have l: "sublist ''127.0.0.1'' ''http://127.0.0.1:8080/''"
    by code_simp
  have n: "\<not> sublist ''127.0.0.1'' ''http://192.168.1.5:8080/''"
      "\<not> sublist ''localhost'' ''http://192.168.1.5:8080/''"
    by code_simp+
  from DeviceInfoView_get_urls [OF su gu] show ?thesis
    using l n by auto
qed

end
